theory Spec2Isabelle
  imports Main
begin

unbundle bit_operations_syntax

section \<open>Values of the Cairo VM\<close>

text \<open>
  Modelled from the spec: the class \<open>Felt\<close> (primitives/felt) is imported by the
  bitwise handler but is not part of the listing. The spec gives the prime
  \<open>p = 2^251 + 17 * 2^192 + 1\<close> and the invariant that every Felt is the
  canonical representative in \<open>[0, p)\<close>, reduced mod \<open>p\<close>. A felt is such a
  representative; \<open>new Felt(n)\<close> is \<open>Felt n\<close>, the conversion from an integer, which
  reduces mod \<open>p\<close>, and \<open>toBigInt\<close> reads the representative back. JavaScript
  bigints are unbounded, so integers are \<open>int\<close>.
\<close>

definition PRIME :: int where
  "PRIME = 2 ^ 251 + 17 * 2 ^ 192 + 1"

typedef felt = "{0 ..< PRIME}"
  by (rule exI [of _ 0]) (simp add: PRIME_def)

setup_lifting type_definition_felt

lift_definition Felt :: "int \<Rightarrow> felt" is "\<lambda>n. n mod PRIME"
  by (simp add: PRIME_def)

lift_definition toBigInt :: "felt \<Rightarrow> int" is "\<lambda>n. n" .

text \<open>
  Modelled from the spec: \<open>Relocatable\<close> (primitives/relocatable) is an address
  \<open>(segment_id, offset)\<close>; \<open>SegmentValue\<close> (primitives/segmentValue) is the union of
  Felt and Relocatable. The type guard \<open>isFelt\<close> of the source, followed by the use
  of the value as a Felt, is the case distinction on the two constructors.
\<close>

datatype relocatable = Relocatable nat nat

datatype segmentValue = SV_Felt felt | SV_Relocatable relocatable

text \<open>
  Every exception class the listing throws or declares, as one type of errors:
  the decoder's errors (errors/instruction), the builtin's errors
  (errors/builtins, errors/virtualMachine) and the memory errors.
\<close>

datatype error =
    HighBitSetError
  | InvalidApUpdate
  | InvalidDstRegister
  | InvalidOp0Register
  | InvalidOp1Register
  | InvalidOpcode
  | InvalidPcUpdate
  | InvalidResLogic
  | UndefinedValue nat
  | ExpectedFelt
  | InconsistentMemory relocatable segmentValue segmentValue
  | SegmentOutOfBounds nat nat
  | InstructionError

section \<open>The bitwise builtin handler\<close>

text \<open>
  The handler traps property reads on a memory segment, a JavaScript array of
  segment values with holes. The segment is a partial map from cell offsets to
  values: reading a hole gives \<open>undefined\<close> (\<open>None\<close>) and an assignment past the end
  extends the array. Property keys that are not numbers are forwarded to
  \<open>Reflect.get\<close> and never reach the cell logic below; \<open>bitwiseHandler_get\<close> is the
  handler on a cell offset, an array index and so a natural number. It returns
  the value read together with the segment after the read, since an output read
  assigns into the segment. A stored segment value is an object and always
  truthy, so the test \<open>!xValue\<close> holds exactly for a hole.
\<close>

type_synonym segment = "nat \<rightharpoonup> segmentValue"

definition cellsPerBitwise :: nat where
  "cellsPerBitwise = 5"

definition inputCellsPerBitwise :: nat where
  "inputCellsPerBitwise = 2"

definition bitwiseHandler_get ::
  "segment \<Rightarrow> nat \<Rightarrow> error + (segmentValue option \<times> segment)" where
  "bitwiseHandler_get target offset =
    (let bitwiseIndex = offset mod cellsPerBitwise in
     if bitwiseIndex < inputCellsPerBitwise then Inr (target offset, target)
     else
       let xOffset = offset - bitwiseIndex in
       (case target xOffset of
          None \<Rightarrow> Inl (UndefinedValue xOffset)
        | Some (SV_Relocatable rx) \<Rightarrow> Inl ExpectedFelt
        | Some (SV_Felt xValue) \<Rightarrow>
            let x = toBigInt xValue;
                yOffset = xOffset + 1 in
            (case target yOffset of
               None \<Rightarrow> Inl (UndefinedValue yOffset)
             | Some (SV_Relocatable ry) \<Rightarrow> Inl ExpectedFelt
             | Some (SV_Felt yValue) \<Rightarrow>
                 let y = toBigInt yValue;
                     target' =
                       (if bitwiseIndex = 2 then target(offset \<mapsto> SV_Felt (Felt (x AND y)))
                        else if bitwiseIndex = 3 then target(offset \<mapsto> SV_Felt (Felt (x XOR y)))
                        else if bitwiseIndex = 4 then target(offset \<mapsto> SV_Felt (Felt (x OR y)))
                        else target)
                 in Inr (target' offset, target'))))"

section \<open>Instructions\<close>

datatype register = Register_Pc | Register_Ap | Register_Fp

datatype op1Src = Op1Src_Pc | Op1Src_Ap | Op1Src_Fp | Op1Src_Op0

datatype resLogic = ResLogic_Op1 | ResLogic_Add | ResLogic_Mul | ResLogic_Unused

datatype pcUpdate = PcUpdate_Regular | PcUpdate_Jump | PcUpdate_JumpRel | PcUpdate_Jnz

datatype apUpdate = ApUpdate_Ap | ApUpdate_AddRes | ApUpdate_Add1 | ApUpdate_Add2

datatype fpUpdate = FpUpdate_Fp | FpUpdate_ApPlus2 | FpUpdate_Dst

datatype opcode = Opcode_NoOp | Opcode_Call | Opcode_Ret | Opcode_AssertEq

record instruction =
  dstOffset :: int
  op0Offset :: int
  op1Offset :: int
  dstRegister :: register
  op0Register :: register
  op1Register :: op1Src
  resLogic :: resLogic
  pcUpdate :: pcUpdate
  apUpdate :: apUpdate
  fpUpdate :: fpUpdate
  opcode :: opcode

definition BIAS :: int where
  "BIAS = 2 ^ 15"

definition fromBiased :: "int \<Rightarrow> int" where
  "fromBiased v = v - BIAS"

text \<open>
  The flag fields, as \<open>decodeInstruction\<close> cuts them out of the encoded word. On
  bigints \<open>>>\<close> is the arithmetic shift (\<open>drop_bit\<close> on \<open>int\<close>) and \<open>&\<close> works on
  the two's complement representation (\<open>AND\<close> on \<open>int\<close>).
\<close>

definition flags :: "int \<Rightarrow> int" where
  "flags encodedInstruction = drop_bit 48 encodedInstruction"

definition dstRegisterFlag :: "int \<Rightarrow> int" where
  "dstRegisterFlag w = flags w AND 1"

definition op0RegisterFlag :: "int \<Rightarrow> int" where
  "op0RegisterFlag w = drop_bit 1 (flags w) AND 1"

definition op1RegisterFlag :: "int \<Rightarrow> int" where
  "op1RegisterFlag w = drop_bit 2 (flags w) AND 7"

definition resLogicFlag :: "int \<Rightarrow> int" where
  "resLogicFlag w = drop_bit 5 (flags w) AND 3"

definition pcUpdateFlag :: "int \<Rightarrow> int" where
  "pcUpdateFlag w = drop_bit 7 (flags w) AND 7"

definition apUpdateFlag :: "int \<Rightarrow> int" where
  "apUpdateFlag w = drop_bit 10 (flags w) AND 3"

definition opcodeFlag :: "int \<Rightarrow> int" where
  "opcodeFlag w = drop_bit 12 (flags w) AND 7"

text \<open>The eight \<open>switch\<close> statements of \<open>decodeInstruction\<close>, in source order.\<close>

definition decode_dstRegister :: "int \<Rightarrow> error + register" where
  "decode_dstRegister f =
    (if f = 0 then Inr Register_Ap
     else if f = 1 then Inr Register_Fp
     else Inl InvalidDstRegister)"

definition decode_op0Register :: "int \<Rightarrow> error + register" where
  "decode_op0Register f =
    (if f = 0 then Inr Register_Ap
     else if f = 1 then Inr Register_Fp
     else Inl InvalidOp0Register)"

definition decode_op1Register :: "int \<Rightarrow> error + op1Src" where
  "decode_op1Register f =
    (if f = 0 then Inr Op1Src_Op0
     else if f = 1 then Inr Op1Src_Pc
     else if f = 2 then Inr Op1Src_Fp
     else if f = 4 then Inr Op1Src_Ap
     else Inl InvalidOp1Register)"

definition decode_pcUpdate :: "int \<Rightarrow> error + pcUpdate" where
  "decode_pcUpdate f =
    (if f = 0 then Inr PcUpdate_Regular
     else if f = 1 then Inr PcUpdate_Jump
     else if f = 2 then Inr PcUpdate_JumpRel
     else if f = 4 then Inr PcUpdate_Jnz
     else Inl InvalidPcUpdate)"

definition decode_resLogic :: "int \<Rightarrow> pcUpdate \<Rightarrow> error + resLogic" where
  "decode_resLogic f pcu =
    (if f = 0 then Inr (if pcu = PcUpdate_Jnz then ResLogic_Unused else ResLogic_Op1)
     else if f = 1 then Inr ResLogic_Add
     else if f = 2 then Inr ResLogic_Mul
     else Inl InvalidResLogic)"

definition decode_opcode :: "int \<Rightarrow> error + opcode" where
  "decode_opcode f =
    (if f = 0 then Inr Opcode_NoOp
     else if f = 1 then Inr Opcode_Call
     else if f = 2 then Inr Opcode_Ret
     else if f = 4 then Inr Opcode_AssertEq
     else Inl InvalidOpcode)"

definition decode_apUpdate :: "int \<Rightarrow> opcode \<Rightarrow> error + apUpdate" where
  "decode_apUpdate f opc =
    (if f = 0 then Inr (if opc = Opcode_Call then ApUpdate_Add2 else ApUpdate_Ap)
     else if f = 1 then Inr ApUpdate_AddRes
     else if f = 2 then Inr ApUpdate_Add1
     else Inl InvalidApUpdate)"

definition decode_fpUpdate :: "opcode \<Rightarrow> fpUpdate" where
  "decode_fpUpdate opc =
    (case opc of
       Opcode_Call \<Rightarrow> FpUpdate_ApPlus2
     | Opcode_Ret \<Rightarrow> FpUpdate_Dst
     | _ \<Rightarrow> FpUpdate_Fp)"

definition decodeInstruction :: "int \<Rightarrow> error + instruction" where
  "decodeInstruction encodedInstruction =
    (if drop_bit 63 encodedInstruction \<noteq> 0 then Inl HighBitSetError
     else
       let dstOff = fromBiased (encodedInstruction AND 0xffff);
           op0Off = fromBiased (drop_bit 16 encodedInstruction AND 0xffff);
           op1Off = fromBiased (drop_bit 32 encodedInstruction AND 0xffff)
       in
       (case decode_dstRegister (dstRegisterFlag encodedInstruction) of
          Inl e \<Rightarrow> Inl e
        | Inr dstReg \<Rightarrow>
       (case decode_op0Register (op0RegisterFlag encodedInstruction) of
          Inl e \<Rightarrow> Inl e
        | Inr op0Reg \<Rightarrow>
       (case decode_op1Register (op1RegisterFlag encodedInstruction) of
          Inl e \<Rightarrow> Inl e
        | Inr op1Reg \<Rightarrow>
       (case decode_pcUpdate (pcUpdateFlag encodedInstruction) of
          Inl e \<Rightarrow> Inl e
        | Inr pcu \<Rightarrow>
       (case decode_resLogic (resLogicFlag encodedInstruction) pcu of
          Inl e \<Rightarrow> Inl e
        | Inr res \<Rightarrow>
       (case decode_opcode (opcodeFlag encodedInstruction) of
          Inl e \<Rightarrow> Inl e
        | Inr opc \<Rightarrow>
       (case decode_apUpdate (apUpdateFlag encodedInstruction) opc of
          Inl e \<Rightarrow> Inl e
        | Inr apu \<Rightarrow>
            Inr \<lparr> dstOffset = dstOff, op0Offset = op0Off, op1Offset = op1Off,
                  dstRegister = dstReg, op0Register = op0Reg, op1Register = op1Reg,
                  resLogic = res, pcUpdate = pcu, apUpdate = apu,
                  fpUpdate = decode_fpUpdate opc, opcode = opc \<rparr>))))))))"

definition size_instruction :: "instruction \<Rightarrow> nat" where
  "size_instruction i = (if op1Register i = Op1Src_Pc then 2 else 1)"

section \<open>Facts about masks, shifts and the switches\<close>

lemma and_1_mod: "(x::int) AND 1 = x mod 2"
  by (simp add: and_one_eq)

lemma and_3_mod: "(x::int) AND 3 = x mod 4"
  using take_bit_eq_mask [of 2 x] by (simp add: take_bit_eq_mod mask_eq_exp_minus_1)

lemma and_7_mod: "(x::int) AND 7 = x mod 8"
  using take_bit_eq_mask [of 3 x] by (simp add: take_bit_eq_mod mask_eq_exp_minus_1)

lemma and_ffff_mod: "(x::int) AND 0xffff = x mod 65536"
  using take_bit_eq_mask [of 16 x] by (simp add: take_bit_eq_mod mask_eq_exp_minus_1)

lemma high_bit_test: "0 \<le> w \<Longrightarrow> (drop_bit 63 w \<noteq> 0) = (2 ^ 63 \<le> (w::int))"
proof -
  assume nonneg: "0 \<le> w"
  have "(0 < w div 2 ^ 63) = (2 ^ 63 \<le> w)"
    by (rule pos_imp_zdiv_pos_iff) simp
  moreover from nonneg have "0 \<le> w div 2 ^ 63"
    by (simp add: pos_imp_zdiv_nonneg_iff)
  ultimately show ?thesis
    unfolding drop_bit_eq_div by linarith
qed

lemma no_high_bit: "0 \<le> w \<Longrightarrow> w < 2 ^ 63 \<Longrightarrow> drop_bit 63 (w::int) = 0"
  using high_bit_test [of w] by simp

text \<open>Where each flag sits in the encoded word: the flags start at bit 48.\<close>

lemma flag_bits:
  "dstRegisterFlag w = (w div 2 ^ 48) mod 2"
  "op0RegisterFlag w = (w div 2 ^ 49) mod 2"
  "op1RegisterFlag w = (w div 2 ^ 50) mod 8"
  "resLogicFlag w = (w div 2 ^ 53) mod 4"
  "pcUpdateFlag w = (w div 2 ^ 55) mod 8"
  "apUpdateFlag w = (w div 2 ^ 58) mod 4"
  "opcodeFlag w = (w div 2 ^ 60) mod 8"
  unfolding dstRegisterFlag_def op0RegisterFlag_def op1RegisterFlag_def
      resLogicFlag_def pcUpdateFlag_def apUpdateFlag_def opcodeFlag_def flags_def
      and_1_mod and_3_mod and_7_mod drop_bit_drop_bit
  by (simp_all only: drop_bit_eq_div) simp_all

lemmas decode_switch_defs =
  decode_dstRegister_def decode_op0Register_def decode_op1Register_def
  decode_pcUpdate_def decode_resLogic_def decode_opcode_def decode_apUpdate_def

lemmas decode_eval =
  decodeInstruction_def decode_switch_defs decode_fpUpdate_def flag_bits
  fromBiased_def BIAS_def and_ffff_mod drop_bit_eq_div

lemma dstRegisterFlag_cases: "dstRegisterFlag w = 0 \<or> dstRegisterFlag w = 1"
  unfolding dstRegisterFlag_def and_1_mod by presburger

lemma op0RegisterFlag_cases: "op0RegisterFlag w = 0 \<or> op0RegisterFlag w = 1"
  unfolding op0RegisterFlag_def and_1_mod by presburger

lemma decode_dstRegister_total: "\<exists>r. decode_dstRegister (dstRegisterFlag w) = Inr r"
  using dstRegisterFlag_cases [of w] by (auto simp: decode_dstRegister_def)

lemma decode_op0Register_total: "\<exists>r. decode_op0Register (op0RegisterFlag w) = Inr r"
  using op0RegisterFlag_cases [of w] by (auto simp: decode_op0Register_def)

text \<open>Each switch raises its own error only, and accepts its legal values only.\<close>

lemma switch_errors:
  "decode_dstRegister f = Inl e \<Longrightarrow> e = InvalidDstRegister"
  "decode_op0Register f = Inl e \<Longrightarrow> e = InvalidOp0Register"
  "decode_op1Register f = Inl e \<Longrightarrow> e = InvalidOp1Register"
  "decode_pcUpdate f = Inl e \<Longrightarrow> e = InvalidPcUpdate"
  "decode_resLogic f pcu = Inl e \<Longrightarrow> e = InvalidResLogic"
  "decode_opcode f = Inl e \<Longrightarrow> e = InvalidOpcode"
  "decode_apUpdate f opc = Inl e \<Longrightarrow> e = InvalidApUpdate"
  by (simp_all add: decode_switch_defs split: if_splits)

lemma switch_ok:
  "f \<in> {0, 1, 2, 4} \<Longrightarrow> \<exists>r. decode_op1Register f = Inr r"
  "f \<in> {0, 1, 2, 4} \<Longrightarrow> \<exists>r. decode_pcUpdate f = Inr r"
  "f \<in> {0, 1, 2} \<Longrightarrow> \<exists>r. decode_resLogic f pcu = Inr r"
  "f \<in> {0, 1, 2, 4} \<Longrightarrow> \<exists>r. decode_opcode f = Inr r"
  "f \<in> {0, 1, 2} \<Longrightarrow> \<exists>r. decode_apUpdate f opc = Inr r"
  by (auto simp: decode_switch_defs)

lemma switch_Inr:
  "decode_op1Register f = Inr s \<Longrightarrow>
     f = 0 \<and> s = Op1Src_Op0 \<or> f = 1 \<and> s = Op1Src_Pc \<or> f = 2 \<and> s = Op1Src_Fp
     \<or> f = 4 \<and> s = Op1Src_Ap"
  "decode_pcUpdate f = Inr p \<Longrightarrow> f \<in> {0, 1, 2, 4}"
  "decode_resLogic f pcu = Inr r \<Longrightarrow>
     f = 0 \<and> r = (if pcu = PcUpdate_Jnz then ResLogic_Unused else ResLogic_Op1)
     \<or> f = 1 \<and> r = ResLogic_Add \<or> f = 2 \<and> r = ResLogic_Mul"
  "decode_opcode f = Inr opc \<Longrightarrow> f \<in> {0, 1, 2, 4}"
  "decode_apUpdate f opc = Inr a \<Longrightarrow>
     f = 0 \<and> a = (if opc = Opcode_Call then ApUpdate_Add2 else ApUpdate_Ap)
     \<or> f = 1 \<and> a = ApUpdate_AddRes \<or> f = 2 \<and> a = ApUpdate_Add1"
  by (simp_all add: decode_switch_defs split: if_splits)

text \<open>What a successful decoding and a failed decoding say about the word.\<close>

lemma decodeInstruction_Inr:
  assumes "decodeInstruction w = Inr i"
  shows "drop_bit 63 w = 0"
    and "decode_dstRegister (dstRegisterFlag w) = Inr (dstRegister i)"
    and "decode_op0Register (op0RegisterFlag w) = Inr (op0Register i)"
    and "decode_op1Register (op1RegisterFlag w) = Inr (op1Register i)"
    and "decode_pcUpdate (pcUpdateFlag w) = Inr (pcUpdate i)"
    and "decode_resLogic (resLogicFlag w) (pcUpdate i) = Inr (resLogic i)"
    and "decode_opcode (opcodeFlag w) = Inr (opcode i)"
    and "decode_apUpdate (apUpdateFlag w) (opcode i) = Inr (apUpdate i)"
    and "fpUpdate i = decode_fpUpdate (opcode i)"
    and "dstOffset i = fromBiased (w AND 0xffff)"
    and "op0Offset i = fromBiased (drop_bit 16 w AND 0xffff)"
    and "op1Offset i = fromBiased (drop_bit 32 w AND 0xffff)"
  using assms
  by (auto simp: decodeInstruction_def Let_def split: if_splits sum.splits)

lemma decodeInstruction_Inl:
  assumes "decodeInstruction w = Inl e"
  shows "e = HighBitSetError \<and> drop_bit 63 w \<noteq> 0
       \<or> drop_bit 63 w = 0 \<and>
         (decode_dstRegister (dstRegisterFlag w) = Inl e
        \<or> decode_op0Register (op0RegisterFlag w) = Inl e
        \<or> decode_op1Register (op1RegisterFlag w) = Inl e
        \<or> decode_pcUpdate (pcUpdateFlag w) = Inl e
        \<or> (\<exists>pcu. decode_resLogic (resLogicFlag w) pcu = Inl e)
        \<or> decode_opcode (opcodeFlag w) = Inl e
        \<or> (\<exists>opc. decode_apUpdate (apUpdateFlag w) opc = Inl e))"
  using assms
  by (auto simp: decodeInstruction_def Let_def split: if_splits sum.splits)

text \<open>
  Sample words. \<open>0x480680017fff8000\<close> is \<open>[ap] = imm; ap++\<close>: flags \<open>0x4806\<close>, offsets
  \<open>0x8000\<close>, \<open>0x7fff\<close>, \<open>0x8001\<close>. The others set single flag fields over zero offsets.
\<close>

lemma decode_assert_imm:
  "decodeInstruction 0x480680017fff8000 =
     Inr \<lparr> dstOffset = 0, op0Offset = -1, op1Offset = 1,
           dstRegister = Register_Ap, op0Register = Register_Fp, op1Register = Op1Src_Pc,
           resLogic = ResLogic_Op1, pcUpdate = PcUpdate_Regular, apUpdate = ApUpdate_Add1,
           fpUpdate = FpUpdate_Fp, opcode = Opcode_AssertEq \<rparr>"
  by (simp add: decode_eval)

lemma sample_flags:
  "op1RegisterFlag 0x000C000000000000 = 3"
  "op1RegisterFlag 0x480680017fff8000 = 1"
  "resLogicFlag 0x0060000000000000 = 3"
  "op1RegisterFlag 0x0060000000000000 = 0"
  "pcUpdateFlag 0x0060000000000000 = 0"
  "resLogicFlag 0x006C000000000000 = 3"
  "op1RegisterFlag 0x006C000000000000 = 3"
  "apUpdateFlag 0x0C00000000000000 = 3"
  "op1RegisterFlag 0x0C00000000000000 = 0"
  "pcUpdateFlag 0x0C00000000000000 = 0"
  "resLogicFlag 0x0C00000000000000 = 0"
  "opcodeFlag 0x0C00000000000000 = 0"
  "apUpdateFlag 0x0C0C000000000000 = 3"
  "op1RegisterFlag 0x0C0C000000000000 = 3"
  "apUpdateFlag 0x1000000000000000 = 0"
  "apUpdateFlag 0 = 0"
  by (simp_all add: flag_bits)



text \<open>
  The outcome of decoding a 63-bit word: the switches that can throw run in the
  order op1, pc update, res logic, opcode, ap update, and the first illegal
  field decides the error; a word with no illegal field decodes.
\<close>

lemma decode_outcome:
  assumes w: "0 \<le> w" "w < 2 ^ 63"
  shows "op1RegisterFlag w \<notin> {0, 1, 2, 4} \<Longrightarrow> decodeInstruction w = Inl InvalidOp1Register"
    and "op1RegisterFlag w \<in> {0, 1, 2, 4} \<Longrightarrow> pcUpdateFlag w \<notin> {0, 1, 2, 4} \<Longrightarrow>
           decodeInstruction w = Inl InvalidPcUpdate"
    and "op1RegisterFlag w \<in> {0, 1, 2, 4} \<Longrightarrow> pcUpdateFlag w \<in> {0, 1, 2, 4} \<Longrightarrow>
           resLogicFlag w \<notin> {0, 1, 2} \<Longrightarrow> decodeInstruction w = Inl InvalidResLogic"
    and "op1RegisterFlag w \<in> {0, 1, 2, 4} \<Longrightarrow> pcUpdateFlag w \<in> {0, 1, 2, 4} \<Longrightarrow>
           resLogicFlag w \<in> {0, 1, 2} \<Longrightarrow> opcodeFlag w \<notin> {0, 1, 2, 4} \<Longrightarrow>
           decodeInstruction w = Inl InvalidOpcode"
    and "op1RegisterFlag w \<in> {0, 1, 2, 4} \<Longrightarrow> pcUpdateFlag w \<in> {0, 1, 2, 4} \<Longrightarrow>
           resLogicFlag w \<in> {0, 1, 2} \<Longrightarrow> opcodeFlag w \<in> {0, 1, 2, 4} \<Longrightarrow>
           apUpdateFlag w \<notin> {0, 1, 2} \<Longrightarrow> decodeInstruction w = Inl InvalidApUpdate"
    and "op1RegisterFlag w \<in> {0, 1, 2, 4} \<Longrightarrow> pcUpdateFlag w \<in> {0, 1, 2, 4} \<Longrightarrow>
           resLogicFlag w \<in> {0, 1, 2} \<Longrightarrow> opcodeFlag w \<in> {0, 1, 2, 4} \<Longrightarrow>
           apUpdateFlag w \<in> {0, 1, 2} \<Longrightarrow> \<exists>i. decodeInstruction w = Inr i"
proof -
  obtain rd r0 where regs:
    "decode_dstRegister (dstRegisterFlag w) = Inr rd"
    "decode_op0Register (op0RegisterFlag w) = Inr r0"
    using decode_dstRegister_total [of w] decode_op0Register_total [of w] by blast
  note start = regs no_high_bit [OF w]
  show "decodeInstruction w = Inl InvalidOp1Register" if "op1RegisterFlag w \<notin> {0, 1, 2, 4}"
  proof -
    from that have "decode_op1Register (op1RegisterFlag w) = Inl InvalidOp1Register"
      by (simp add: decode_op1Register_def)
    with start show ?thesis by (simp add: decodeInstruction_def)
  qed
  show "decodeInstruction w = Inl InvalidPcUpdate"
    if "op1RegisterFlag w \<in> {0, 1, 2, 4}" "pcUpdateFlag w \<notin> {0, 1, 2, 4}"
  proof -
    from that(1) obtain r1 where "decode_op1Register (op1RegisterFlag w) = Inr r1"
      using switch_ok(1) by blast
    moreover from that(2) have "decode_pcUpdate (pcUpdateFlag w) = Inl InvalidPcUpdate"
      by (simp add: decode_pcUpdate_def)
    ultimately show ?thesis using start by (simp add: decodeInstruction_def)
  qed
  show "decodeInstruction w = Inl InvalidResLogic"
    if "op1RegisterFlag w \<in> {0, 1, 2, 4}" "pcUpdateFlag w \<in> {0, 1, 2, 4}"
      "resLogicFlag w \<notin> {0, 1, 2}"
  proof -
    from that(1) obtain r1 where "decode_op1Register (op1RegisterFlag w) = Inr r1"
      using switch_ok(1) by blast
    moreover from that(2) obtain pcu where "decode_pcUpdate (pcUpdateFlag w) = Inr pcu"
      using switch_ok(2) by blast
    moreover from that(3) have "decode_resLogic (resLogicFlag w) pcu = Inl InvalidResLogic"
      by (simp add: decode_resLogic_def)
    ultimately show ?thesis using start by (simp add: decodeInstruction_def)
  qed
  show "decodeInstruction w = Inl InvalidOpcode"
    if "op1RegisterFlag w \<in> {0, 1, 2, 4}" "pcUpdateFlag w \<in> {0, 1, 2, 4}"
      "resLogicFlag w \<in> {0, 1, 2}" "opcodeFlag w \<notin> {0, 1, 2, 4}"
  proof -
    from that(1) obtain r1 where "decode_op1Register (op1RegisterFlag w) = Inr r1"
      using switch_ok(1) by blast
    moreover from that(2) obtain pcu where "decode_pcUpdate (pcUpdateFlag w) = Inr pcu"
      using switch_ok(2) by blast
    moreover from that(3) obtain res where "decode_resLogic (resLogicFlag w) pcu = Inr res"
      using switch_ok(3) by blast
    moreover from that(4) have "decode_opcode (opcodeFlag w) = Inl InvalidOpcode"
      by (simp add: decode_opcode_def)
    ultimately show ?thesis using start by (simp add: decodeInstruction_def)
  qed
  show "decodeInstruction w = Inl InvalidApUpdate"
    if "op1RegisterFlag w \<in> {0, 1, 2, 4}" "pcUpdateFlag w \<in> {0, 1, 2, 4}"
      "resLogicFlag w \<in> {0, 1, 2}" "opcodeFlag w \<in> {0, 1, 2, 4}"
      "apUpdateFlag w \<notin> {0, 1, 2}"
  proof -
    from that(1) obtain r1 where "decode_op1Register (op1RegisterFlag w) = Inr r1"
      using switch_ok(1) by blast
    moreover from that(2) obtain pcu where "decode_pcUpdate (pcUpdateFlag w) = Inr pcu"
      using switch_ok(2) by blast
    moreover from that(3) obtain res where "decode_resLogic (resLogicFlag w) pcu = Inr res"
      using switch_ok(3) by blast
    moreover from that(4) obtain opc where "decode_opcode (opcodeFlag w) = Inr opc"
      using switch_ok(4) by blast
    moreover from that(5) have "decode_apUpdate (apUpdateFlag w) opc = Inl InvalidApUpdate"
      by (simp add: decode_apUpdate_def)
    ultimately show ?thesis using start by (simp add: decodeInstruction_def)
  qed
  show "\<exists>i. decodeInstruction w = Inr i"
    if "op1RegisterFlag w \<in> {0, 1, 2, 4}" "pcUpdateFlag w \<in> {0, 1, 2, 4}"
      "resLogicFlag w \<in> {0, 1, 2}" "opcodeFlag w \<in> {0, 1, 2, 4}"
      "apUpdateFlag w \<in> {0, 1, 2}"
  proof -
    from that(1) obtain r1 where "decode_op1Register (op1RegisterFlag w) = Inr r1"
      using switch_ok(1) by blast
    moreover from that(2) obtain pcu where "decode_pcUpdate (pcUpdateFlag w) = Inr pcu"
      using switch_ok(2) by blast
    moreover from that(3) obtain res where "decode_resLogic (resLogicFlag w) pcu = Inr res"
      using switch_ok(3) by blast
    moreover from that(4) obtain opc where "decode_opcode (opcodeFlag w) = Inr opc"
      using switch_ok(4) by blast
    moreover from that(5) obtain apu where "decode_apUpdate (apUpdateFlag w) opc = Inr apu"
      using switch_ok(5) by blast
    ultimately show ?thesis using start by (simp add: decodeInstruction_def)
  qed
qed

text \<open>The flag fields of further sample words, all legal.\<close>

lemma legal_flags:
  "op1RegisterFlag 0 = 0 \<and> pcUpdateFlag 0 = 0 \<and> resLogicFlag 0 = 0
     \<and> opcodeFlag 0 = 0 \<and> apUpdateFlag 0 = 0"
  "op1RegisterFlag 0x480680017fff8000 = 1 \<and> pcUpdateFlag 0x480680017fff8000 = 0
     \<and> resLogicFlag 0x480680017fff8000 = 0 \<and> opcodeFlag 0x480680017fff8000 = 4
     \<and> apUpdateFlag 0x480680017fff8000 = 2"
  "op1RegisterFlag 0x0008000000000000 = 2 \<and> pcUpdateFlag 0x0008000000000000 = 0
     \<and> resLogicFlag 0x0008000000000000 = 0 \<and> opcodeFlag 0x0008000000000000 = 0
     \<and> apUpdateFlag 0x0008000000000000 = 0"
  "op1RegisterFlag 0x0010000000000000 = 4 \<and> pcUpdateFlag 0x0010000000000000 = 0
     \<and> resLogicFlag 0x0010000000000000 = 0 \<and> opcodeFlag 0x0010000000000000 = 0
     \<and> apUpdateFlag 0x0010000000000000 = 0"
  "op1RegisterFlag 0x0040000000000000 = 0 \<and> pcUpdateFlag 0x0040000000000000 = 0
     \<and> resLogicFlag 0x0040000000000000 = 2 \<and> opcodeFlag 0x0040000000000000 = 0
     \<and> apUpdateFlag 0x0040000000000000 = 0"
  "op1RegisterFlag 0x0020000000000000 = 0 \<and> pcUpdateFlag 0x0020000000000000 = 0
     \<and> resLogicFlag 0x0020000000000000 = 1 \<and> opcodeFlag 0x0020000000000000 = 0
     \<and> apUpdateFlag 0x0020000000000000 = 0"
  "op1RegisterFlag 0x0200000000000000 = 0 \<and> pcUpdateFlag 0x0200000000000000 = 4
     \<and> resLogicFlag 0x0200000000000000 = 0 \<and> opcodeFlag 0x0200000000000000 = 0
     \<and> apUpdateFlag 0x0200000000000000 = 0"
  "op1RegisterFlag 0x1000000000000000 = 0 \<and> pcUpdateFlag 0x1000000000000000 = 0
     \<and> resLogicFlag 0x1000000000000000 = 0 \<and> opcodeFlag 0x1000000000000000 = 1
     \<and> apUpdateFlag 0x1000000000000000 = 0"
  by (simp_all add: flag_bits)

section \<open>The decoder: claims\<close>

text \<open>
  Claim C10. For every integer input, and so for every non-negative one,
  \<open>decodeInstruction\<close> never raises \<open>InvalidDstRegister\<close> or \<open>InvalidOp0Register\<close>:
  the two register flags are masked to one bit, so each is 0 or 1 and the
  \<open>default\<close> branches of their switches are never taken.
\<close>

theorem decode_register_errors_unreachable:
  "decodeInstruction w \<noteq> Inl InvalidDstRegister
   \<and> decodeInstruction w \<noteq> Inl InvalidOp0Register
   \<and> dstRegisterFlag w \<in> {0, 1} \<and> op0RegisterFlag w \<in> {0, 1}"
proof -
  have "decodeInstruction w \<noteq> Inl InvalidDstRegister"
  proof
    assume "decodeInstruction w = Inl InvalidDstRegister"
    from decodeInstruction_Inl [OF this] decode_dstRegister_total [of w]
    show False by (auto dest: switch_errors)
  qed
  moreover have "decodeInstruction w \<noteq> Inl InvalidOp0Register"
  proof
    assume "decodeInstruction w = Inl InvalidOp0Register"
    from decodeInstruction_Inl [OF this] decode_op0Register_total [of w]
    show False by (auto dest: switch_errors)
  qed
  ultimately show ?thesis
    using dstRegisterFlag_cases [of w] op0RegisterFlag_cases [of w] by auto
qed

text \<open>
  Claim C5. For every non-negative word \<open>w\<close>, \<open>decodeInstruction w\<close> raises
  \<open>HighBitSetError\<close> exactly when \<open>w \<ge> 2^63\<close>, and a word the decoder accepts is
  below \<open>2^63\<close> and has bit 63 clear.
\<close>

theorem decode_high_bit:
  "0 \<le> w \<Longrightarrow>
     ((decodeInstruction w = Inl HighBitSetError) = (2 ^ 63 \<le> w))
   \<and> (\<forall>i. decodeInstruction w = Inr i \<longrightarrow> w < 2 ^ 63 \<and> \<not> bit w 63)"
proof -
  assume nonneg: "0 \<le> w"
  have err: "(decodeInstruction w = Inl HighBitSetError) = (drop_bit 63 w \<noteq> 0)"
  proof
    assume "decodeInstruction w = Inl HighBitSetError"
    from decodeInstruction_Inl [OF this]
    show "drop_bit 63 w \<noteq> 0" by (auto dest: switch_errors)
  next
    assume "drop_bit 63 w \<noteq> 0"
    then show "decodeInstruction w = Inl HighBitSetError"
      by (simp add: decodeInstruction_def)
  qed
  have acc: "w < 2 ^ 63 \<and> \<not> bit w 63" if "decodeInstruction w = Inr i" for i
  proof -
    from that have z: "drop_bit 63 w = 0" by (rule decodeInstruction_Inr)
    with high_bit_test [OF nonneg] have "w < 2 ^ 63" by simp
    moreover from z have "\<not> bit w 63"
      using bit_iff_odd_drop_bit [of w 63] by simp
    ultimately show ?thesis by simp
  qed
  from err acc high_bit_test [OF nonneg] show ?thesis by blast
qed

text \<open>
  The word \<open>1 << 63\<close> raises \<open>HighBitSetError\<close>; the accepted word
  \<open>0x480680017fff8000\<close> has bit 63 clear.
\<close>

theorem decode_high_bit_witness:
  "decodeInstruction (2 ^ 63) = Inl HighBitSetError
   \<and> \<not> bit (0x480680017fff8000 :: int) 63"
proof -
  have "(0::int) \<le> 2 ^ 63" by simp
  from decode_high_bit [OF this]
  have a: "decodeInstruction (2 ^ 63) = Inl HighBitSetError" by blast
  have "(0::int) \<le> 0x480680017fff8000" by simp
  from decode_high_bit [OF this] decode_assert_imm
  have "\<not> bit (0x480680017fff8000 :: int) 63" by blast
  with a show ?thesis by (rule conjI)
qed

text \<open>
  Claim C8. For every 63-bit word, the \<open>op1_src\<close> field (bits 2..4 of the flags,
  bits 50..52 of the word) decodes as 0 to Op0, 1 to Pc, 2 to Fp, 4 to Ap:
  a word with one of these values and no other illegal field decodes, and its
  instruction has that op1 source. Every other value (3, 5, 6, 7), and no
  legal one, raises the decoder's op1 error, which the source names
  \<open>InvalidOp1Register\<close>.
\<close>

theorem decode_op1_src:
  "0 \<le> w \<Longrightarrow> w < 2 ^ 63 \<Longrightarrow>
     op1RegisterFlag w = (w div 2 ^ 50) mod 8
   \<and> ((decodeInstruction w = Inl InvalidOp1Register) = (op1RegisterFlag w \<notin> {0, 1, 2, 4}))
   \<and> (\<forall>i. decodeInstruction w = Inr i \<longrightarrow>
         op1RegisterFlag w = 0 \<and> op1Register i = Op1Src_Op0
       \<or> op1RegisterFlag w = 1 \<and> op1Register i = Op1Src_Pc
       \<or> op1RegisterFlag w = 2 \<and> op1Register i = Op1Src_Fp
       \<or> op1RegisterFlag w = 4 \<and> op1Register i = Op1Src_Ap)
   \<and> (op1RegisterFlag w \<in> {0, 1, 2, 4} \<longrightarrow> pcUpdateFlag w \<in> {0, 1, 2, 4} \<longrightarrow>
        resLogicFlag w \<in> {0, 1, 2} \<longrightarrow> opcodeFlag w \<in> {0, 1, 2, 4} \<longrightarrow>
        apUpdateFlag w \<in> {0, 1, 2} \<longrightarrow> (\<exists>i. decodeInstruction w = Inr i))"
proof -
  assume w: "0 \<le> w" "w < 2 ^ 63"
  have bad: "decodeInstruction w = Inl InvalidOp1Register"
    if "op1RegisterFlag w \<notin> {0, 1, 2, 4}"
    using that by (rule decode_outcome(1) [OF w])
  have only: "op1RegisterFlag w \<notin> {0, 1, 2, 4}"
    if e: "decodeInstruction w = Inl InvalidOp1Register"
  proof
    assume legal: "op1RegisterFlag w \<in> {0, 1, 2, 4}"
    then obtain r1 where "decode_op1Register (op1RegisterFlag w) = Inr r1"
      using switch_ok(1) by blast
    with decodeInstruction_Inl [OF e] decode_dstRegister_total [of w]
      decode_op0Register_total [of w] no_high_bit [OF w]
    show False by (auto dest: switch_errors)
  qed
  have good: "op1RegisterFlag w = 0 \<and> op1Register i = Op1Src_Op0
       \<or> op1RegisterFlag w = 1 \<and> op1Register i = Op1Src_Pc
       \<or> op1RegisterFlag w = 2 \<and> op1Register i = Op1Src_Fp
       \<or> op1RegisterFlag w = 4 \<and> op1Register i = Op1Src_Ap"
    if "decodeInstruction w = Inr i" for i
    using decodeInstruction_Inr(4) [OF that] by (rule switch_Inr)
  from bad only good decode_outcome(6) [OF w] flag_bits(3) [of w] show ?thesis by blast
qed

text \<open>
  Flags with \<open>op1_src\<close> bits 3 raise the op1 error. Words with \<open>op1_src\<close> bits 0, 1,
  2 and 4 and otherwise legal fields decode with op1 taken from Op0, Pc, Fp and
  Ap.
\<close>

theorem decode_op1_src_witness:
  "op1RegisterFlag 0x000C000000000000 = 3
   \<and> decodeInstruction 0x000C000000000000 = Inl InvalidOp1Register
   \<and> (\<exists>i. decodeInstruction 0 = Inr i \<and> op1Register i = Op1Src_Op0)
   \<and> (\<exists>i. decodeInstruction 0x480680017fff8000 = Inr i \<and> op1Register i = Op1Src_Pc)
   \<and> (\<exists>i. decodeInstruction 0x0008000000000000 = Inr i \<and> op1Register i = Op1Src_Fp)
   \<and> (\<exists>i. decodeInstruction 0x0010000000000000 = Inr i \<and> op1Register i = Op1Src_Ap)"
proof -
  have "(0::int) \<le> 0x000C000000000000" "(0x000C000000000000::int) < 2 ^ 63" by simp_all
  from decode_op1_src [OF this] sample_flags(1)
  have a: "decodeInstruction 0x000C000000000000 = Inl InvalidOp1Register" by simp
  have "(0::int) \<le> 0" "(0::int) < 2 ^ 63" by simp_all
  from decode_op1_src [OF this] legal_flags(1)
  have b: "\<exists>i. decodeInstruction 0 = Inr i \<and> op1Register i = Op1Src_Op0"
    by auto
  have "(0::int) \<le> 0x480680017fff8000" "(0x480680017fff8000::int) < 2 ^ 63" by simp_all
  from decode_op1_src [OF this] legal_flags(2)
  have c: "\<exists>i. decodeInstruction 0x480680017fff8000 = Inr i \<and> op1Register i = Op1Src_Pc"
    by auto
  have "(0::int) \<le> 0x0008000000000000" "(0x0008000000000000::int) < 2 ^ 63" by simp_all
  from decode_op1_src [OF this] legal_flags(3)
  have d: "\<exists>i. decodeInstruction 0x0008000000000000 = Inr i \<and> op1Register i = Op1Src_Fp"
    by auto
  have "(0::int) \<le> 0x0010000000000000" "(0x0010000000000000::int) < 2 ^ 63" by simp_all
  from decode_op1_src [OF this] legal_flags(4)
  have e: "\<exists>i. decodeInstruction 0x0010000000000000 = Inr i \<and> op1Register i = Op1Src_Ap"
    by auto
  from a b c d e sample_flags(1) show ?thesis by blast
qed

text \<open>
  Claim C9. For every word \<open>w < 2^63\<close> that decodes, the three offsets are the
  16-bit fields \<open>w[0..16)\<close>, \<open>w[16..32)\<close>, \<open>w[32..48)\<close> minus \<open>2^15\<close>, and each lies
  in \<open>[-2^15, 2^15 - 1]\<close>.
\<close>

theorem decode_offsets:
  "0 \<le> w \<Longrightarrow> w < 2 ^ 63 \<Longrightarrow> decodeInstruction w = Inr i \<Longrightarrow>
     dstOffset i = w mod 2 ^ 16 - 2 ^ 15
   \<and> op0Offset i = (w div 2 ^ 16) mod 2 ^ 16 - 2 ^ 15
   \<and> op1Offset i = (w div 2 ^ 32) mod 2 ^ 16 - 2 ^ 15
   \<and> - (2 ^ 15) \<le> dstOffset i \<and> dstOffset i \<le> 2 ^ 15 - 1
   \<and> - (2 ^ 15) \<le> op0Offset i \<and> op0Offset i \<le> 2 ^ 15 - 1
   \<and> - (2 ^ 15) \<le> op1Offset i \<and> op1Offset i \<le> 2 ^ 15 - 1"
proof -
  assume d: "decodeInstruction w = Inr i"
  have range: "0 \<le> x mod 65536 \<and> x mod 65536 \<le> 65535" for x :: int
    by simp
  have "dstOffset i = w mod 65536 - 32768"
    using decodeInstruction_Inr(10) [OF d]
    by (simp add: fromBiased_def BIAS_def and_ffff_mod)
  moreover have "op0Offset i = (w div 65536) mod 65536 - 32768"
    using decodeInstruction_Inr(11) [OF d]
    by (simp add: fromBiased_def BIAS_def and_ffff_mod drop_bit_eq_div)
  moreover have "op1Offset i = (w div 4294967296) mod 65536 - 32768"
    using decodeInstruction_Inr(12) [OF d]
    by (simp add: fromBiased_def BIAS_def and_ffff_mod drop_bit_eq_div)
  ultimately show ?thesis
    using range [of w] range [of "w div 65536"] range [of "w div 4294967296"]
    by simp
qed

text \<open>
  The word \<open>0x480680017fff8000\<close> carries the biased fields \<open>0x8000\<close>, \<open>0x7fff\<close>,
  \<open>0x8001\<close> and decodes to the offsets 0, -1 and 1.
\<close>

theorem decode_offsets_witness:
  "\<exists>i. decodeInstruction 0x480680017fff8000 = Inr i
     \<and> dstOffset i = 0 \<and> op0Offset i = -1 \<and> op1Offset i = 1
     \<and> - (2 ^ 15) \<le> dstOffset i \<and> dstOffset i \<le> 2 ^ 15 - 1
     \<and> - (2 ^ 15) \<le> op0Offset i \<and> op0Offset i \<le> 2 ^ 15 - 1
     \<and> - (2 ^ 15) \<le> op1Offset i \<and> op1Offset i \<le> 2 ^ 15 - 1"
proof -
  have "(0::int) \<le> 0x480680017fff8000" "(0x480680017fff8000::int) < 2 ^ 63" by simp_all
  from decode_offsets [OF this decode_assert_imm] decode_assert_imm
  show ?thesis by simp
qed







section \<open>The bitwise handler: claims\<close>

lemmas bitwise_defs = bitwiseHandler_get_def cellsPerBitwise_def inputCellsPerBitwise_def

text \<open>Felts and their representatives.\<close>

lemma toBigInt_Felt: "toBigInt (Felt n) = n mod PRIME"
  by (rule Felt.rep_eq [unfolded toBigInt.rep_eq [symmetric]])





lemma get_input_cell:
  "offset mod 5 < 2 \<Longrightarrow> bitwiseHandler_get target offset = Inr (target offset, target)"
  by (simp add: bitwise_defs)

lemma get_output_cell:
  assumes "2 \<le> offset mod 5"
    and "target (offset - offset mod 5) = Some (SV_Felt fx)"
    and "target (offset - offset mod 5 + 1) = Some (SV_Felt fy)"
  shows "bitwiseHandler_get target offset =
    Inr (Some (SV_Felt (Felt (if offset mod 5 = 2 then toBigInt fx AND toBigInt fy
                              else if offset mod 5 = 3 then toBigInt fx XOR toBigInt fy
                              else toBigInt fx OR toBigInt fy))),
         target(offset \<mapsto> SV_Felt (Felt (if offset mod 5 = 2 then toBigInt fx AND toBigInt fy
                              else if offset mod 5 = 3 then toBigInt fx XOR toBigInt fy
                              else toBigInt fx OR toBigInt fy))))"
proof -
  have "offset mod 5 < 5" by simp
  with assms(1) have "offset mod 5 = 2 \<or> offset mod 5 = 3 \<or> offset mod 5 = 4" by linarith
  with assms show ?thesis
    by (auto simp: bitwise_defs Let_def)
qed

lemma get_output_Inr:
  assumes "2 \<le> offset mod 5"
    and "bitwiseHandler_get target offset = Inr (v, target')"
  shows "\<exists>fx fy. target (offset - offset mod 5) = Some (SV_Felt fx)
             \<and> target (offset - offset mod 5 + 1) = Some (SV_Felt fy)"
  using assms
  by (auto simp: bitwise_defs Let_def split: option.splits segmentValue.splits)


text \<open>An output cell lies strictly after the two input cells of its block.\<close>

lemma output_not_input:
  "2 \<le> offset mod 5 \<Longrightarrow>
     offset - offset mod 5 \<noteq> offset \<and> offset - offset mod 5 + 1 \<noteq> (offset::nat)"
proof -
  assume "2 \<le> offset mod 5"
  moreover have "offset mod 5 \<le> offset" by (rule mod_less_eq_dividend)
  ultimately show ?thesis by linarith
qed

lemma same_result:
  "g = Inr (v, t) \<Longrightarrow> g = (Inr (v', t') :: error + (segmentValue option \<times> segment)) \<Longrightarrow>
     v = v' \<and> t = t'"
  by simp




text \<open>
  Claim C6. After a successful read of an output cell the computed Felt is
  stored in the segment at that offset, and every later read of the same cell,
  on the segment left by the read or on any segment with the same two input
  cells, returns the same Felt; reading again leaves the segment as it is.
\<close>

theorem bitwise_read_idempotent:
  "2 \<le> offset mod 5 \<Longrightarrow> bitwiseHandler_get target offset = Inr (v, target') \<Longrightarrow>
     target' offset = v \<and> (\<exists>f. v = Some (SV_Felt f))
   \<and> bitwiseHandler_get target' offset = Inr (v, target')
   \<and> (\<forall>t. t (offset - offset mod 5) = target' (offset - offset mod 5) \<longrightarrow>
           t (offset - offset mod 5 + 1) = target' (offset - offset mod 5 + 1) \<longrightarrow>
           (\<exists>t'. bitwiseHandler_get t offset = Inr (v, t')))"
proof -
  assume out: "2 \<le> offset mod 5"
    and get: "bitwiseHandler_get target offset = Inr (v, target')"
  from get_output_Inr [OF out get] obtain fx fy where
    x: "target (offset - offset mod 5) = Some (SV_Felt fx)" and
    y: "target (offset - offset mod 5 + 1) = Some (SV_Felt fy)" by blast
  define r where "r = SV_Felt (Felt (if offset mod 5 = 2 then toBigInt fx AND toBigInt fy
                              else if offset mod 5 = 3 then toBigInt fx XOR toBigInt fy
                              else toBigInt fx OR toBigInt fy))"
  have "bitwiseHandler_get target offset = Inr (Some r, target(offset \<mapsto> r))"
    unfolding r_def by (rule get_output_cell [of offset target fx fy, OF out x y])
  from same_result [OF get this]
  have v: "v = Some r" and t': "target' = target(offset \<mapsto> r)"
    by blast+
  from output_not_input [OF out]
  have ne: "offset - offset mod 5 \<noteq> offset" "offset - offset mod 5 + 1 \<noteq> offset"
    by blast+
  have x': "target' (offset - offset mod 5) = Some (SV_Felt fx)"
    unfolding t' using ne(1) x by simp
  have y': "target' (offset - offset mod 5 + 1) = Some (SV_Felt fy)"
    unfolding t' using ne(2) y by simp
  have stored: "target' offset = v"
    unfolding v t' by (rule fun_upd_same)
  have felt: "\<exists>f. v = Some (SV_Felt f)"
    unfolding v r_def by blast
  have "bitwiseHandler_get target' offset = Inr (Some r, target'(offset \<mapsto> r))"
    unfolding r_def by (rule get_output_cell [of offset target' fx fy, OF out x' y'])
  moreover have "target'(offset \<mapsto> r) = target'"
    unfolding t' by (rule fun_upd_upd)
  ultimately have again: "bitwiseHandler_get target' offset = Inr (v, target')"
    unfolding v by (rule back_subst [where P = "\<lambda>m. bitwiseHandler_get target' offset = Inr (Some r, m)"])
  have later: "\<exists>t'. bitwiseHandler_get t offset = Inr (v, t')"
    if tx: "t (offset - offset mod 5) = target' (offset - offset mod 5)"
      and ty: "t (offset - offset mod 5 + 1) = target' (offset - offset mod 5 + 1)" for t
  proof -
    from tx x' have a: "t (offset - offset mod 5) = Some (SV_Felt fx)"
      by (rule trans)
    from ty y' have b: "t (offset - offset mod 5 + 1) = Some (SV_Felt fy)"
      by (rule trans)
    have "bitwiseHandler_get t offset = Inr (Some r, t(offset \<mapsto> r))"
      unfolding r_def by (rule get_output_cell [of offset t fx fy, OF out a b])
    then show ?thesis unfolding v by blast
  qed
  from stored felt again later show ?thesis by blast
qed

text \<open>
  Cell 2 of the block with inputs \<open>Felt(0b1100)\<close> and \<open>Felt(0b1010)\<close>: the first
  read stores \<open>Felt(0b1000)\<close>, the read of the segment so obtained returns it
  again and changes nothing, and so does a read after cell 7 was set.
\<close>

theorem bitwise_read_idempotent_witness:
  "bitwiseHandler_get [0 \<mapsto> SV_Felt (Felt 12), 1 \<mapsto> SV_Felt (Felt 10)] 2 =
     Inr (Some (SV_Felt (Felt 8)),
          [0 \<mapsto> SV_Felt (Felt 12), 1 \<mapsto> SV_Felt (Felt 10), 2 \<mapsto> SV_Felt (Felt 8)])
   \<and> bitwiseHandler_get
       [0 \<mapsto> SV_Felt (Felt 12), 1 \<mapsto> SV_Felt (Felt 10), 2 \<mapsto> SV_Felt (Felt 8)] 2 =
     Inr (Some (SV_Felt (Felt 8)),
          [0 \<mapsto> SV_Felt (Felt 12), 1 \<mapsto> SV_Felt (Felt 10), 2 \<mapsto> SV_Felt (Felt 8)])
   \<and> (\<exists>t'. bitwiseHandler_get
       [0 \<mapsto> SV_Felt (Felt 12), 1 \<mapsto> SV_Felt (Felt 10), 2 \<mapsto> SV_Felt (Felt 8),
        7 \<mapsto> SV_Felt (Felt 5)] 2 = Inr (Some (SV_Felt (Felt 8)), t'))"
proof -
  let ?T = "[0 \<mapsto> SV_Felt (Felt 12), 1 \<mapsto> SV_Felt (Felt 10)] :: segment"
  let ?T' = "?T(2 \<mapsto> SV_Felt (Felt 8))"
  let ?U = "?T'(7 \<mapsto> SV_Felt (Felt 5))"
  have out: "2 \<le> (2::nat) mod 5" by simp
  have first: "bitwiseHandler_get ?T 2 = Inr (Some (SV_Felt (Felt 8)), ?T')"
    by (simp add: bitwise_defs toBigInt_Felt PRIME_def)
  note reads = bitwise_read_idempotent [OF out first]
  from reads have again: "bitwiseHandler_get ?T' 2 = Inr (Some (SV_Felt (Felt 8)), ?T')"
    by blast
  have same: "?U (2 - 2 mod 5) = ?T' (2 - 2 mod 5)"
    "?U (2 - 2 mod 5 + 1) = ?T' (2 - 2 mod 5 + 1)"
    by simp_all
  from reads have "\<forall>t. t (2 - 2 mod 5) = ?T' (2 - 2 mod 5) \<longrightarrow>
      t (2 - 2 mod 5 + 1) = ?T' (2 - 2 mod 5 + 1) \<longrightarrow>
      (\<exists>t'. bitwiseHandler_get t 2 = Inr (Some (SV_Felt (Felt 8)), t'))"
    by blast
  with same have later: "\<exists>t'. bitwiseHandler_get ?U 2 = Inr (Some (SV_Felt (Felt 8)), t')"
    by blast
  from first again later show ?thesis by blast
qed

text \<open>
  Claim C7. For every read of an output cell, each input cell of the block
  must be assigned and hold a Felt: the cell at block-relative offset 0 is
  examined first and the cell at offset 1 after it. The cell examined raises
  \<open>UndefinedValue\<close> naming its own offset when it is unassigned and \<open>ExpectedFelt\<close>
  when it holds a Relocatable. A read of an input cell returns what the
  underlying segment holds there, with no computation and no change of the
  segment.
\<close>

theorem bitwise_input_errors:
  "(offset mod 5 < 2 \<longrightarrow> bitwiseHandler_get target offset = Inr (target offset, target))
   \<and> (2 \<le> offset mod 5 \<longrightarrow>
        (target (offset - offset mod 5) = None \<longrightarrow>
           bitwiseHandler_get target offset = Inl (UndefinedValue (offset - offset mod 5)))
      \<and> ((\<exists>r. target (offset - offset mod 5) = Some (SV_Relocatable r)) \<longrightarrow>
           bitwiseHandler_get target offset = Inl ExpectedFelt)
      \<and> ((\<exists>f. target (offset - offset mod 5) = Some (SV_Felt f)) \<longrightarrow>
           (target (offset - offset mod 5 + 1) = None \<longrightarrow>
              bitwiseHandler_get target offset =
                Inl (UndefinedValue (offset - offset mod 5 + 1)))
         \<and> ((\<exists>r. target (offset - offset mod 5 + 1) = Some (SV_Relocatable r)) \<longrightarrow>
              bitwiseHandler_get target offset = Inl ExpectedFelt)))"
  by (auto simp: bitwise_defs Let_def)

text \<open>
  Reads of cell 2 with cell 0 unassigned, with cell 0 a Relocatable, with cell 1
  unassigned and with cell 1 a Relocatable; and a read of the input cell 1.
\<close>

theorem bitwise_input_errors_witness:
  "bitwiseHandler_get Map.empty 2 = Inl (UndefinedValue 0)
   \<and> bitwiseHandler_get [0 \<mapsto> SV_Relocatable (Relocatable 1 0), 1 \<mapsto> SV_Felt (Felt 10)] 2
       = Inl ExpectedFelt
   \<and> bitwiseHandler_get [0 \<mapsto> SV_Felt (Felt 12)] 2 = Inl (UndefinedValue 1)
   \<and> bitwiseHandler_get [0 \<mapsto> SV_Felt (Felt 12), 1 \<mapsto> SV_Relocatable (Relocatable 1 0)] 2
       = Inl ExpectedFelt
   \<and> bitwiseHandler_get [0 \<mapsto> SV_Felt (Felt 12), 1 \<mapsto> SV_Felt (Felt 10)] 1
       = Inr (Some (SV_Felt (Felt 10)), [0 \<mapsto> SV_Felt (Felt 12), 1 \<mapsto> SV_Felt (Felt 10)])"
  using bitwise_input_errors [of 2 Map.empty]
    bitwise_input_errors [of 2 "[0 \<mapsto> SV_Relocatable (Relocatable 1 0), 1 \<mapsto> SV_Felt (Felt 10)]"]
    bitwise_input_errors [of 2 "[0 \<mapsto> SV_Felt (Felt 12)]"]
    bitwise_input_errors [of 2 "[0 \<mapsto> SV_Felt (Felt 12), 1 \<mapsto> SV_Relocatable (Relocatable 1 0)]"]
    bitwise_input_errors [of 1 "[0 \<mapsto> SV_Felt (Felt 12), 1 \<mapsto> SV_Felt (Felt 10)]"]
  by simp




end
